theory Spec2Isabelle
  imports Complex_Main
begin

section \<open>Values shared by the plugin and the collector\<close>

text \<open>
  Clock readings are the results of Python's \<^verbatim>\<open>time.time()\<close>: seconds as a
  number.  They are kept as reals; the plugin only ever subtracts two of them.
\<close>

type_synonym time = real

text \<open>
  A value of \<open>py_exception\<close> is an instance of Python's \<^verbatim>\<open>Exception\<close>, with the
  text \<^verbatim>\<open>str(e)\<close> gives.  \<^verbatim>\<open>AttributeError\<close> and \<^verbatim>\<open>RuntimeError\<close> are the two
  classes the plugin names; every other class is \<open>OtherException\<close>.
\<close>

datatype py_exception =
    AttributeError string
  | RuntimeError string
  | OtherException string

fun str_exception :: "py_exception \<Rightarrow> string" where
  "str_exception (AttributeError m) = m"
| "str_exception (RuntimeError m) = m"
| "str_exception (OtherException m) = m"

section \<open>The instruments of the metrics library\<close>

text \<open>
  The collector builds on \<^verbatim>\<open>prometheus_client\<close>.  A labelled instrument keeps one
  series per tuple of label values, created the first time the tuple is used and kept
  in creation order.  A counter series holds a count, a histogram series the values
  observed so far (oldest first), a gauge without labels one number.
\<close>

type_synonym labels = "string list"
type_synonym counter = "(labels \<times> nat) list"
type_synonym histogram = "(labels \<times> time list) list"
type_synonym gauge = real

text \<open>\<^verbatim>\<open>counter.labels(...).inc()\<close>\<close>

fun inc :: "counter \<Rightarrow> labels \<Rightarrow> counter" where
  "inc [] ls = [(ls, 1)]"
| "inc ((k, v) # c) ls = (if k = ls then (k, v + 1) # c else (k, v) # inc c ls)"

text \<open>\<^verbatim>\<open>histogram.labels(...).observe(v)\<close>\<close>

fun observe :: "histogram \<Rightarrow> labels \<Rightarrow> time \<Rightarrow> histogram" where
  "observe [] ls x = [(ls, [x])]"
| "observe ((k, xs) # h) ls x =
     (if k = ls then (k, xs @ [x]) # h else (k, xs) # observe h ls x)"

text \<open>Reading a series; a series that was never created reads as empty.\<close>

definition counter_value :: "counter \<Rightarrow> labels \<Rightarrow> nat" where
  "counter_value c ls = (case map_of c ls of None \<Rightarrow> 0 | Some v \<Rightarrow> v)"

definition counter_total :: "counter \<Rightarrow> nat" where
  "counter_total c = sum_list (map snd c)"

definition observations :: "histogram \<Rightarrow> labels \<Rightarrow> time list" where
  "observations h ls = (case map_of h ls of None \<Rightarrow> [] | Some xs \<Rightarrow> xs)"

definition observation_total :: "histogram \<Rightarrow> nat" where
  "observation_total h = sum_list (map (\<lambda>s. length (snd s)) h)"

text \<open>
  The cumulative bucket of a histogram series: the count of the observations at or below
  an upper bound.  The bounds are the ones the collector passes.
\<close>

definition duration_buckets :: "time list" where
  "duration_buckets =
     [0.005, 0.01, 0.025, 0.05, 0.075, 0.1, 0.25, 0.5, 0.75, 1.0, 2.5, 5.0, 7.5, 10.0]"

definition bucket_count :: "time list \<Rightarrow> time \<Rightarrow> nat" where
  "bucket_count xs bound = length (filter (\<lambda>x. x \<le> bound) xs)"

section \<open>collector.py: MetricsCollector\<close>

record MetricsCollector =
  http_requests_total :: counter
  http_request_duration_seconds :: histogram
  package_downloads_total :: counter
  package_uploads_total :: counter
  package_upload_failures_total :: counter
  package_removals_total :: counter
  packages_total :: gauge
  projects_total :: gauge
  searches_total :: counter
  simple_index_requests_total :: counter
  auth_attempts_total :: counter
  errors_total :: counter
  server_info :: "(string \<times> string) list"
  start_time :: time
  uptime_seconds :: gauge

text \<open>\<^verbatim>\<open>MetricsCollector.__init__\<close>; \<open>now\<close> is the reading of the clock it takes.\<close>

definition MetricsCollector_init :: "time \<Rightarrow> MetricsCollector" where
  "MetricsCollector_init now =
     \<lparr> http_requests_total = [],
       http_request_duration_seconds = [],
       package_downloads_total = [],
       package_uploads_total = [],
       package_upload_failures_total = [],
       package_removals_total = [],
       packages_total = 0,
       projects_total = 0,
       searches_total = [],
       simple_index_requests_total = [],
       auth_attempts_total = [],
       errors_total = [],
       server_info = [],
       start_time = now,
       uptime_seconds = 0 \<rparr>"

definition record_http_request ::
  "string \<Rightarrow> string \<Rightarrow> string \<Rightarrow> time \<Rightarrow> MetricsCollector \<Rightarrow> MetricsCollector" where
  "record_http_request meth endpoint status_code duration c =
     c\<lparr> http_requests_total := inc (http_requests_total c) [meth, endpoint, status_code],
        http_request_duration_seconds :=
          observe (http_request_duration_seconds c) [meth, endpoint, status_code] duration \<rparr>"

definition record_download :: "string \<Rightarrow> string \<Rightarrow> MetricsCollector \<Rightarrow> MetricsCollector" where
  "record_download package_name filename c =
     c\<lparr> package_downloads_total := inc (package_downloads_total c) [package_name, filename] \<rparr>"

text \<open>\<^verbatim>\<open>user or "anonymous"\<close>: the empty string is falsy.\<close>

definition or_anonymous :: "string \<Rightarrow> string" where
  "or_anonymous user = (if user = [] then ''anonymous'' else user)"

definition record_upload :: "string \<Rightarrow> string \<Rightarrow> MetricsCollector \<Rightarrow> MetricsCollector" where
  "record_upload package_name user c =
     c\<lparr> package_uploads_total :=
          inc (package_uploads_total c) [package_name, or_anonymous user] \<rparr>"

definition record_upload_failure :: "string \<Rightarrow> MetricsCollector \<Rightarrow> MetricsCollector" where
  "record_upload_failure reason c =
     c\<lparr> package_upload_failures_total := inc (package_upload_failures_total c) [reason] \<rparr>"

definition record_removal :: "string \<Rightarrow> string \<Rightarrow> MetricsCollector \<Rightarrow> MetricsCollector" where
  "record_removal package_name user c =
     c\<lparr> package_removals_total :=
          inc (package_removals_total c) [package_name, or_anonymous user] \<rparr>"

definition update_package_counts :: "nat \<Rightarrow> nat \<Rightarrow> MetricsCollector \<Rightarrow> MetricsCollector" where
  "update_package_counts package_count project_count c =
     c\<lparr> packages_total := real package_count, projects_total := real project_count \<rparr>"

definition record_search :: "string \<Rightarrow> MetricsCollector \<Rightarrow> MetricsCollector" where
  "record_search search_type c =
     c\<lparr> searches_total := inc (searches_total c) [search_type] \<rparr>"

definition record_simple_index_request :: "string \<Rightarrow> MetricsCollector \<Rightarrow> MetricsCollector" where
  "record_simple_index_request project_name c =
     c\<lparr> simple_index_requests_total := inc (simple_index_requests_total c) [project_name] \<rparr>"

definition record_auth_attempt :: "string \<Rightarrow> bool \<Rightarrow> MetricsCollector \<Rightarrow> MetricsCollector" where
  "record_auth_attempt action success c =
     (let result = (if success then ''success'' else ''failure'')
      in c\<lparr> auth_attempts_total := inc (auth_attempts_total c) [action, result] \<rparr>)"

definition record_error :: "string \<Rightarrow> string \<Rightarrow> string \<Rightarrow> MetricsCollector \<Rightarrow> MetricsCollector" where
  "record_error endpoint error_type status_code c =
     c\<lparr> errors_total := inc (errors_total c) [endpoint, error_type, status_code] \<rparr>"

definition set_server_info :: "string \<Rightarrow> string \<Rightarrow> string \<Rightarrow> MetricsCollector \<Rightarrow> MetricsCollector" where
  "set_server_info version backend_type fallback c =
     c\<lparr> server_info :=
          [(''version'', version), (''backend_type'', backend_type), (''fallback_url'', fallback)] \<rparr>"

definition update_uptime :: "time \<Rightarrow> MetricsCollector \<Rightarrow> MetricsCollector" where
  "update_uptime now c = c\<lparr> uptime_seconds := now - start_time c \<rparr>"

text \<open>
  \<^verbatim>\<open>CONTENT_TYPE_LATEST\<close> of the metrics library, and \<^verbatim>\<open>generate_metrics\<close>.  The
  library's \<^verbatim>\<open>generate_latest\<close> is the parameter \<open>render\<close>: it gives the exposition
  text of a collector's state, or raises.
\<close>

definition CONTENT_TYPE_LATEST :: string where
  "CONTENT_TYPE_LATEST = ''text/plain; version=0.0.4; charset=utf-8''"

definition generate_metrics ::
  "(MetricsCollector \<Rightarrow> py_exception + string) \<Rightarrow> time \<Rightarrow> MetricsCollector
     \<Rightarrow> (py_exception + string \<times> string) \<times> MetricsCollector" where
  "generate_metrics render now c =
     (let c1 = update_uptime now c
      in case render c1 of
           Inl e \<Rightarrow> (Inl e, c1)
         | Inr metrics_bytes \<Rightarrow> (Inr (metrics_bytes, CONTENT_TYPE_LATEST), c1))"

section \<open>The collaborators of the plugin\<close>

subsection \<open>Python strings\<close>

text \<open>\<^verbatim>\<open>s.startswith(p)\<close>\<close>

definition startswith :: "string \<Rightarrow> string \<Rightarrow> bool" where
  "startswith s p = (take (length p) s = p)"

text \<open>
  \<^verbatim>\<open>s.split(sep, 1)[-1]\<close> for a non-empty \<open>sep\<close>: the text after the first
  occurrence of \<open>sep\<close>, and all of \<open>s\<close> when \<open>sep\<close> does not occur.
\<close>

fun after_first :: "string \<Rightarrow> string \<Rightarrow> string option" where
  "after_first sep [] = None"
| "after_first sep (c # cs) =
     (if startswith (c # cs) sep then Some (drop (length sep) (c # cs))
      else after_first sep cs)"

definition split1_last :: "string \<Rightarrow> string \<Rightarrow> string" where
  "split1_last sep s = (case after_first sep s of None \<Rightarrow> s | Some r \<Rightarrow> r)"

text \<open>\<^verbatim>\<open>s.split(c)[0]\<close> for a single character \<open>c\<close>: the text before the first \<open>c\<close>.\<close>

definition split_head :: "char \<Rightarrow> string \<Rightarrow> string" where
  "split_head c s = takeWhile (\<lambda>x. x \<noteq> c) s"

text \<open>\<^verbatim>\<open>str(n)\<close> of a status code: its decimal digits.\<close>

definition digit_char :: "nat \<Rightarrow> char" where
  "digit_char d = ''0123456789'' ! d"

fun str_nat :: "nat \<Rightarrow> string" where
  "str_nat n = (if n < 10 then [digit_char n] else str_nat (n div 10) @ [digit_char (n mod 10)])"

subsection \<open>The storage backend and the server's configuration\<close>

text \<open>
  The backend belongs to the host server.  Each call of \<^verbatim>\<open>get_all_packages()\<close>
  that is consumed to the end gives a list of packages or raises; the packages on disk
  change between calls, so the answer depends on which call it is.  \<open>responses\<close> gives
  the answer of the call with a given number, \<open>calls\<close> counts the calls made so far.
\<close>

record package =
  pkgname :: string
  fn :: string

record backend =
  class_name :: string
  responses :: "nat \<Rightarrow> py_exception + package list"
  calls :: nat

definition get_all_packages :: "backend \<Rightarrow> (py_exception + package list) \<times> backend" where
  "get_all_packages b = (responses b (calls b), b\<lparr> calls := calls b + 1 \<rparr>)"

record config =
  backend :: "backend option"
  fallback_url :: "string option"

subsection \<open>The request and the response of the host framework\<close>

text \<open>
  The fields of the request the plugin reads.  \<open>metrics_start_time\<close> is the attribute
  \<^verbatim>\<open>_metrics_start_time\<close>, absent until the before-request hook sets it.  Reading the
  form fields, the uploaded files or the authenticated principal runs code of the host
  framework, which may raise.
\<close>

record file_upload =
  raw_filename :: string

record request =
  path :: string
  req_method :: string
  metrics_start_time :: "time option"
  forms :: "py_exception + (string \<times> string) list"
  files :: "py_exception + (string \<times> file_upload) list"
  auth :: "py_exception + (string \<times> string) option"

record response =
  status_code :: nat
  content_type :: string

text \<open>
  The filename parser \<^verbatim>\<open>guess_pkgname_and_version\<close> of the host server is a parameter
  of the hooks: it gives the pair of project name and version, gives \<^verbatim>\<open>None\<close>, or
  raises.
\<close>

type_synonym parser = "string \<Rightarrow> py_exception + (string \<times> string) option"

section \<open>plugin.py: MetricsPlugin\<close>

record MetricsPlugin =
  metrics_endpoint :: string
  config :: "config option"
  collector :: "MetricsCollector option"

text \<open>
  \<^verbatim>\<open>__init__\<close>: \<open>env\<close> is the value of the environment variable
  \<^verbatim>\<open>METRICS_ENDPOINT\<close>, if it is set.
\<close>

definition MetricsPlugin_init :: "string option \<Rightarrow> string \<Rightarrow> MetricsPlugin" where
  "MetricsPlugin_init env endpoint =
     \<lparr> metrics_endpoint = (case env of None \<Rightarrow> endpoint | Some v \<Rightarrow> v),
       config = None,
       collector = None \<rparr>"

subsection \<open>The request hooks\<close>

definition before_request :: "time \<Rightarrow> request \<Rightarrow> request" where
  "before_request now request = request\<lparr> metrics_start_time := Some now \<rparr>"

text \<open>
  \<^verbatim>\<open>_record_application_metrics\<close>, called with an initialised collector.  The result
  is the outcome (\<open>Inl e\<close> when \<open>e\<close> was raised and left the function) and the
  collector as the call leaves it.
\<close>

definition record_application_metrics ::
  "parser \<Rightarrow> request \<Rightarrow> string \<Rightarrow> MetricsCollector \<Rightarrow> (py_exception + unit) \<times> MetricsCollector" where
  "record_application_metrics guess_pkgname_and_version request status c =
     (if req_method request = ''GET'' \<and> startswith (path request) ''/packages/'' \<and> status = ''200''
      then
        (let filename = split_head (CHR ''?'') (split1_last ''/packages/'' (path request))
         in if filename \<noteq> [] then
              (case guess_pkgname_and_version filename of
                 Inl e \<Rightarrow> (Inl e, c)
               | Inr None \<Rightarrow> (Inr (), c)
               | Inr (Some pkg_info) \<Rightarrow> (Inr (), record_download (fst pkg_info) filename c))
            else (Inr (), c))
      else if req_method request = ''POST'' \<and> path request = ''/'' \<and> status = ''200''
      then
        (case forms request of
           Inl e \<Rightarrow> (Inl e, c)
         | Inr form_fields \<Rightarrow>
             (let action = (case map_of form_fields '':action'' of None \<Rightarrow> [] | Some a \<Rightarrow> a)
              in if action = ''file_upload'' then
                   (case files request of
                      Inl e \<Rightarrow> (Inl e, c)
                    | Inr parts \<Rightarrow>
                        (case map_of parts ''content'' of
                           None \<Rightarrow> (Inr (), c)
                         | Some uploaded_file \<Rightarrow>
                             (case guess_pkgname_and_version (raw_filename uploaded_file) of
                                Inl e \<Rightarrow> (Inl e, c)
                              | Inr None \<Rightarrow> (Inr (), c)
                              | Inr (Some pkg_info) \<Rightarrow>
                                  (case auth request of
                                     Inl e \<Rightarrow> (Inl e, c)
                                   | Inr None \<Rightarrow>
                                       (Inr (), record_upload (fst pkg_info) ''anonymous'' c)
                                   | Inr (Some credentials) \<Rightarrow>
                                       (Inr (), record_upload (fst pkg_info) (fst credentials) c)))))
                 else (Inr (), c)))
      else if req_method request = ''POST'' \<and> path request = ''/RPC2'' \<and> status = ''200''
      then (Inr (), record_search ''xmlrpc'' c)
      else (Inr (), c))"

text \<open>
  \<^verbatim>\<open>_after_request\<close>.  The line that computes the duration reads the clock twice:
  \<open>now\<close> is the left operand of the subtraction, \<open>now_default\<close> the default that
  \<^verbatim>\<open>getattr\<close> is given, evaluated after it.
\<close>

definition after_request ::
  "parser \<Rightarrow> time \<Rightarrow> time \<Rightarrow> MetricsPlugin \<Rightarrow> request \<Rightarrow> response
     \<Rightarrow> (py_exception + unit) \<times> MetricsPlugin" where
  "after_request guess_pkgname_and_version now now_default self request response =
     (case collector self of
        None \<Rightarrow> (Inr (), self)
      | Some c \<Rightarrow>
          (let duration =
                 now - (case metrics_start_time request of None \<Rightarrow> now_default | Some t \<Rightarrow> t);
               endpoint = path request;
               meth = req_method request;
               status = str_nat (status_code response);
               c1 = record_http_request meth endpoint status duration c;
               r = record_application_metrics guess_pkgname_and_version request status c1
           in (fst r, self\<lparr> collector := Some (snd r) \<rparr>)))"

subsection \<open>The repository-state refresh\<close>

text \<open>
  The plugin reaches the backend through its configuration; a call of the backend
  leaves the backend one call further.
\<close>

definition with_backend :: "MetricsPlugin \<Rightarrow> config \<Rightarrow> backend \<Rightarrow> MetricsPlugin" where
  "with_backend self cfg b = self\<lparr> config := Some (cfg\<lparr> backend := Some b \<rparr>) \<rparr>"

text \<open>
  The message of the \<^verbatim>\<open>AttributeError\<close> that a method call on \<^verbatim>\<open>None\<close> raises.
\<close>

definition none_has_no_attribute :: "string \<Rightarrow> py_exception" where
  "none_has_no_attribute a =
     AttributeError ([CHR 0x27] @ ''NoneType'' @ [CHR 0x27] @ '' object has no attribute ''
       @ [CHR 0x27] @ a @ [CHR 0x27])"

text \<open>
  The body of the \<^verbatim>\<open>try\<close> statement of \<^verbatim>\<open>_update_repository_stats\<close>: the backend
  is asked for its packages twice, first for the count, then for the project names.
\<close>

definition try_update_repository_stats ::
  "MetricsPlugin \<Rightarrow> config \<Rightarrow> backend \<Rightarrow> (py_exception + unit) \<times> MetricsPlugin" where
  "try_update_repository_stats self cfg b =
     (let q1 = get_all_packages b
      in case fst q1 of
           Inl e \<Rightarrow> (Inl e, with_backend self cfg (snd q1))
         | Inr pkgs1 \<Rightarrow>
             (let package_count = length pkgs1;
                  q2 = get_all_packages (snd q1);
                  self2 = with_backend self cfg (snd q2)
              in case fst q2 of
                   Inl e \<Rightarrow> (Inl e, self2)
                 | Inr pkgs2 \<Rightarrow>
                     (let projects = remdups (map pkgname pkgs2);
                          project_count = length projects
                      in case collector self2 of
                           None \<Rightarrow> (Inl (none_has_no_attribute ''update_package_counts''), self2)
                         | Some c \<Rightarrow>
                             (Inr (), self2\<lparr> collector :=
                                Some (update_package_counts package_count project_count c) \<rparr>))))"

text \<open>
  \<^verbatim>\<open>_update_repository_stats\<close>: an \<^verbatim>\<open>AttributeError\<close> is passed over, any other
  exception is logged as a warning.  The result is the plugin and the warnings logged.
\<close>

definition update_repository_stats :: "MetricsPlugin \<Rightarrow> MetricsPlugin \<times> string list" where
  "update_repository_stats self =
     (case config self of
        None \<Rightarrow> (self, [])
      | Some cfg \<Rightarrow>
          (case backend cfg of
             None \<Rightarrow> (self, [])
           | Some b \<Rightarrow>
               (let r = try_update_repository_stats self cfg b
                in case fst r of
                     Inr u \<Rightarrow> (snd r, [])
                   | Inl e \<Rightarrow>
                       (case e of
                          AttributeError m \<Rightarrow> (snd r, [])
                        | RuntimeError m \<Rightarrow>
                            (snd r, [''Failed to update repository stats: '' @ str_exception e])
                        | OtherException m \<Rightarrow>
                            (snd r, [''Failed to update repository stats: '' @ str_exception e])))))"

subsection \<open>The scrape endpoint\<close>

definition error_body :: "py_exception \<Rightarrow> string" where
  "error_body e = ''Error generating metrics: '' @ str_exception e @ [CHR 0x0A]"

text \<open>
  \<^verbatim>\<open>metrics_handler\<close>, the closure \<^verbatim>\<open>_add_metrics_endpoint\<close> registers.  The result
  is the outcome (the body returned, or \<open>Inl e\<close> when \<open>e\<close> leaves the handler), the
  plugin, the response of the host framework and the warnings logged.
\<close>

definition metrics_handler ::
  "(MetricsCollector \<Rightarrow> py_exception + string) \<Rightarrow> time \<Rightarrow> MetricsPlugin \<Rightarrow> response
     \<Rightarrow> (py_exception + string) \<times> MetricsPlugin \<times> response \<times> string list" where
  "metrics_handler render now self response =
     (let u = update_repository_stats self;
          self1 = fst u;
          logged = snd u
      in case collector self1 of
           None \<Rightarrow>
             (Inr (error_body (none_has_no_attribute ''generate_metrics'')), self1,
              response\<lparr> status_code := 500, content_type := ''text/plain'' \<rparr>, logged)
         | Some c \<Rightarrow>
             (let g = generate_metrics render now c;
                  self2 = self1\<lparr> collector := Some (snd g) \<rparr>
              in case fst g of
                   Inr out \<Rightarrow> (Inr (fst out), self2, response\<lparr> content_type := snd out \<rparr>, logged)
                 | Inl e \<Rightarrow>
                     (Inr (error_body e), self2,
                      response\<lparr> status_code := 500, content_type := ''text/plain'' \<rparr>, logged)))"

subsection \<open>Installing the plugin\<close>

text \<open>
  The host application, as far as the plugin touches it: the configuration the server
  stored on it, its routes and its hooks.
\<close>

datatype callback = Host_callback string | Metrics_handler

record route =
  rule :: string
  route_method :: string
  callback :: callback

datatype hook = Before_request | After_request | Host_hook string

record app =
  pypiserver_config :: "config option"
  routes :: "route list"
  hooks :: "(string \<times> hook) list"

definition add_hook :: "string \<Rightarrow> hook \<Rightarrow> app \<Rightarrow> app" where
  "add_hook name h a = a\<lparr> hooks := hooks a @ [(name, h)] \<rparr>"

text \<open>
  \<^verbatim>\<open>app.route(path, method, callback)\<close> for a non-empty path: one route with that
  rule is added after the existing ones.  What the framework makes of an empty path is
  not modelled; the properties of the endpoint are stated for a non-empty path.
\<close>

definition add_route :: "string \<Rightarrow> string \<Rightarrow> callback \<Rightarrow> app \<Rightarrow> app" where
  "add_route r m cb a = a\<lparr> routes := routes a @ [\<lparr> rule = r, route_method = m, callback = cb \<rparr>] \<rparr>"

definition add_metrics_endpoint :: "MetricsPlugin \<Rightarrow> app \<Rightarrow> (py_exception + unit) \<times> app" where
  "add_metrics_endpoint self a =
     (if metrics_endpoint self \<in> set (map rule (routes a)) then
        (Inl (RuntimeError (''Metrics endpoint '' @ [CHR 0x27] @ metrics_endpoint self
                @ [CHR 0x27] @ '' overlaps with existing routes'')), a)
      else (Inr (), add_route (metrics_endpoint self) ''GET'' Metrics_handler a))"

definition backend_type :: "config \<Rightarrow> string" where
  "backend_type cfg = (case backend cfg of None \<Rightarrow> ''NoneType'' | Some b \<Rightarrow> class_name b)"

definition fallback_or_none :: "config \<Rightarrow> string" where
  "fallback_or_none cfg =
     (case fallback_url cfg of None \<Rightarrow> ''none'' | Some u \<Rightarrow> if u = [] then ''none'' else u)"

text \<open>
  \<^verbatim>\<open>MetricsPlugin.setup\<close>; \<open>version\<close> is the server's \<^verbatim>\<open>__version__\<close>, \<open>now\<close> the
  reading of the clock the new collector takes.  The result is the outcome, the plugin
  and the application as the call leaves them.
\<close>

definition setup_plugin ::
  "string \<Rightarrow> time \<Rightarrow> MetricsPlugin \<Rightarrow> app \<Rightarrow> (py_exception + unit) \<times> MetricsPlugin \<times> app" where
  "setup_plugin version now self a =
     (let self1 = self\<lparr> config := pypiserver_config a \<rparr>
      in case config self1 of
           None \<Rightarrow>
             (Inl (RuntimeError (''Cannot find pypiserver config. ''
                @ ''Ensure this plugin is used with a pypiserver Bottle app.'')), self1, a)
         | Some cfg \<Rightarrow>
             (let c = set_server_info version (backend_type cfg) (fallback_or_none cfg)
                        (MetricsCollector_init now);
                  self2 = self1\<lparr> collector := Some c \<rparr>;
                  a1 = add_hook ''before_request'' Before_request a;
                  a2 = add_hook ''after_request'' After_request a1;
                  r = add_metrics_endpoint self2 a2
              in (fst r, self2, snd r)))"

section \<open>Properties of the instruments\<close>

lemma counter_value_inc_same: "counter_value (inc c ls) ls = counter_value c ls + 1"
  by (induction c ls rule: inc.induct) (auto simp: counter_value_def)

lemma counter_value_inc_other: "k \<noteq> ls \<Longrightarrow> counter_value (inc c ls) k = counter_value c k"
  by (induction c ls rule: inc.induct) (auto simp: counter_value_def)

lemma counter_total_inc: "counter_total (inc c ls) = counter_total c + 1"
  by (induction c ls rule: inc.induct) (auto simp: counter_total_def)

lemma observations_observe_same: "observations (observe h ls x) ls = observations h ls @ [x]"
  by (induction h ls x rule: observe.induct) (auto simp: observations_def)

lemma observations_observe_other: "k \<noteq> ls \<Longrightarrow> observations (observe h ls x) k = observations h k"
  by (induction h ls x rule: observe.induct) (auto simp: observations_def)

lemma observation_total_observe: "observation_total (observe h ls x) = observation_total h + 1"
  by (induction h ls x rule: observe.induct) (auto simp: observation_total_def)

section \<open>Evaluating the string helpers\<close>

lemma str_nat_200: "str_nat 200 = ''200''"
  by (simp add: digit_char_def)

lemma str_nat_404: "str_nat 404 = ''404''"
  by (simp add: digit_char_def)

lemma filename_of_packages_prefix:
  "split_head (CHR ''?'') (split1_last ''/packages/'' ''/packages/'') = []"
  by (simp add: split_head_def split1_last_def startswith_def)

lemma filename_of_foo:
  "split_head (CHR ''?'') (split1_last ''/packages/'' ''/packages/foo-1.0.0.tar.gz'')
     = ''foo-1.0.0.tar.gz''"
  by (simp add: split_head_def split1_last_def startswith_def)

section \<open>The after-request hook\<close>

text \<open>
  C10.  When the after-request hook runs on a plugin whose collector is \<^verbatim>\<open>None\<close>, it
  returns normally and leaves the plugin, and with it every metric, as it was.
\<close>

theorem after_request_uninitialized:
  assumes "collector self = None"
  shows "after_request guess now now_default self request response = (Inr (), self)"
  using assms by (simp add: after_request_def)

theorem after_request_uninitialized_witness:
  "collector (MetricsPlugin_init None ''/metrics'') = None \<and>
   after_request (\<lambda>f. Inr None) 2 2 (MetricsPlugin_init None ''/metrics'')
     \<lparr> path = ''/'', req_method = ''GET'', metrics_start_time = Some 1,
       forms = Inr [], files = Inr [], auth = Inr None \<rparr>
     \<lparr> status_code = 200, content_type = ''text/html'' \<rparr>
   = (Inr (), MetricsPlugin_init None ''/metrics'')"
proof -
  have h: "collector (MetricsPlugin_init None ''/metrics'') = None"
    by (simp add: MetricsPlugin_init_def)
  show ?thesis
    using h after_request_uninitialized [OF h] by simp
qed

text \<open>
  C9.  For \<^verbatim>\<open>GET /packages/\<close> answered with status 200 the path has no tail after
  the prefix: the hook returns normally, the download counter is left as it was, and the
  request is counted once in the request counter (in the series of this method, path
  and status) and once in the duration histogram.
\<close>

theorem packages_prefix_alone_no_download:
  assumes "collector self = Some c"
    and "req_method request = ''GET''"
    and "path request = ''/packages/''"
    and "status_code response = 200"
  shows "\<exists>c'. after_request guess now now_default self request response
                 = (Inr (), self\<lparr> collector := Some c' \<rparr>)
           \<and> package_downloads_total c' = package_downloads_total c
           \<and> counter_value (http_requests_total c') [''GET'', ''/packages/'', ''200'']
               = counter_value (http_requests_total c) [''GET'', ''/packages/'', ''200''] + 1
           \<and> counter_total (http_requests_total c') = counter_total (http_requests_total c) + 1
           \<and> observation_total (http_request_duration_seconds c')
               = observation_total (http_request_duration_seconds c) + 1"
proof -
  define d where
    "d = now - (case metrics_start_time request of None \<Rightarrow> now_default | Some t \<Rightarrow> t)"
  define c1 where "c1 = record_http_request ''GET'' ''/packages/'' ''200'' d c"
  have cls: "record_application_metrics guess request ''200'' c1 = (Inr (), c1)"
    using assms(2,3)
    by (simp add: record_application_metrics_def filename_of_packages_prefix startswith_def)
  have run: "after_request guess now now_default self request response
               = (Inr (), self\<lparr> collector := Some c1 \<rparr>)"
    using assms cls
    by (simp add: after_request_def str_nat_200 Let_def c1_def d_def del: str_nat.simps)
  have "package_downloads_total c1 = package_downloads_total c"
    by (simp add: c1_def record_http_request_def)
  moreover have "counter_value (http_requests_total c1) [''GET'', ''/packages/'', ''200'']
                   = counter_value (http_requests_total c) [''GET'', ''/packages/'', ''200''] + 1"
    by (simp add: c1_def record_http_request_def counter_value_inc_same)
  moreover have "counter_total (http_requests_total c1) = counter_total (http_requests_total c) + 1"
    by (simp add: c1_def record_http_request_def counter_total_inc)
  moreover have "observation_total (http_request_duration_seconds c1)
                   = observation_total (http_request_duration_seconds c) + 1"
    by (simp add: c1_def record_http_request_def observation_total_observe)
  ultimately show ?thesis using run by blast
qed

theorem packages_prefix_alone_no_download_witness:
  "\<exists>c'. after_request (\<lambda>f. Inr (Some (f, ''1.0''))) 2 2
              \<lparr> metrics_endpoint = ''/metrics'', config = None,
                collector = Some (MetricsCollector_init 0) \<rparr>
              \<lparr> path = ''/packages/'', req_method = ''GET'', metrics_start_time = Some 1,
                forms = Inr [], files = Inr [], auth = Inr None \<rparr>
              \<lparr> status_code = 200, content_type = ''text/html'' \<rparr>
            = (Inr (), \<lparr> metrics_endpoint = ''/metrics'', config = None,
                          collector = Some (MetricsCollector_init 0) \<rparr>
                       \<lparr> collector := Some c' \<rparr>)
         \<and> package_downloads_total c' = package_downloads_total (MetricsCollector_init 0)
         \<and> counter_value (http_requests_total c') [''GET'', ''/packages/'', ''200'']
             = counter_value (http_requests_total (MetricsCollector_init 0))
                 [''GET'', ''/packages/'', ''200''] + 1
         \<and> counter_total (http_requests_total c')
             = counter_total (http_requests_total (MetricsCollector_init 0)) + 1
         \<and> observation_total (http_request_duration_seconds c')
             = observation_total (http_request_duration_seconds (MetricsCollector_init 0)) + 1"
  by (rule packages_prefix_alone_no_download) simp_all

text \<open>
  C4.  Let the filename parser give the project \<^verbatim>\<open>foo\<close> for \<^verbatim>\<open>foo-1.0.0.tar.gz\<close>.
  For \<^verbatim>\<open>GET /packages/foo-1.0.0.tar.gz\<close> answered with status 200 the hook records
  one download, in the series of project \<^verbatim>\<open>foo\<close> and file \<^verbatim>\<open>foo-1.0.0.tar.gz\<close>;
  answered with status 404 it records no download.
\<close>

theorem download_recorded_only_on_200:
  assumes "collector self = Some c"
    and "req_method request = ''GET''"
    and "path request = ''/packages/foo-1.0.0.tar.gz''"
    and "guess ''foo-1.0.0.tar.gz'' = Inr (Some (''foo'', version))"
    and "status_code found = 200"
    and "status_code missing = 404"
  shows "(\<exists>c'. after_request guess now now_default self request found
                  = (Inr (), self\<lparr> collector := Some c' \<rparr>)
            \<and> package_downloads_total c'
                = inc (package_downloads_total c) [''foo'', ''foo-1.0.0.tar.gz'']
            \<and> counter_total (package_downloads_total c')
                = counter_total (package_downloads_total c) + 1
            \<and> counter_value (package_downloads_total c') [''foo'', ''foo-1.0.0.tar.gz'']
                = counter_value (package_downloads_total c) [''foo'', ''foo-1.0.0.tar.gz''] + 1)
       \<and> (\<exists>c'. after_request guess now now_default self request missing
                  = (Inr (), self\<lparr> collector := Some c' \<rparr>)
            \<and> package_downloads_total c' = package_downloads_total c)"
proof (rule conjI)
  define d where
    "d = now - (case metrics_start_time request of None \<Rightarrow> now_default | Some t \<Rightarrow> t)"
  define c1 where
    "c1 = record_http_request ''GET'' ''/packages/foo-1.0.0.tar.gz'' ''200'' d c"
  define c2 where "c2 = record_download ''foo'' ''foo-1.0.0.tar.gz'' c1"
  define c3 where
    "c3 = record_http_request ''GET'' ''/packages/foo-1.0.0.tar.gz'' ''404'' d c"
  have cls: "record_application_metrics guess request ''200'' c1 = (Inr (), c2)"
    using assms(2,3,4)
    by (simp add: record_application_metrics_def filename_of_foo startswith_def c2_def)
  have run: "after_request guess now now_default self request found
               = (Inr (), self\<lparr> collector := Some c2 \<rparr>)"
    using assms(1,2,3,5) cls
    by (simp add: after_request_def str_nat_200 Let_def c1_def d_def del: str_nat.simps)
  have dl: "package_downloads_total c2
              = inc (package_downloads_total c) [''foo'', ''foo-1.0.0.tar.gz'']"
    by (simp add: c2_def c1_def record_download_def record_http_request_def)
  show "\<exists>c'. after_request guess now now_default self request found
                 = (Inr (), self\<lparr> collector := Some c' \<rparr>)
           \<and> package_downloads_total c'
               = inc (package_downloads_total c) [''foo'', ''foo-1.0.0.tar.gz'']
           \<and> counter_total (package_downloads_total c')
               = counter_total (package_downloads_total c) + 1
           \<and> counter_value (package_downloads_total c') [''foo'', ''foo-1.0.0.tar.gz'']
               = counter_value (package_downloads_total c) [''foo'', ''foo-1.0.0.tar.gz''] + 1"
    by (rule exI [of _ c2]) (simp add: run dl counter_total_inc counter_value_inc_same)
  have cls': "record_application_metrics guess request ''404'' c3 = (Inr (), c3)"
    using assms(2,3) by (simp add: record_application_metrics_def)
  have run': "after_request guess now now_default self request missing
                = (Inr (), self\<lparr> collector := Some c3 \<rparr>)"
    using assms(1,2,3,6) cls'
    by (simp add: after_request_def str_nat_404 Let_def c3_def d_def del: str_nat.simps)
  have "package_downloads_total c3 = package_downloads_total c"
    by (simp add: c3_def record_http_request_def)
  then show "\<exists>c'. after_request guess now now_default self request missing
                 = (Inr (), self\<lparr> collector := Some c' \<rparr>)
           \<and> package_downloads_total c' = package_downloads_total c"
    using run' by blast
qed

theorem download_recorded_only_on_200_witness:
  "(\<exists>c'. after_request
             (\<lambda>f. if f = ''foo-1.0.0.tar.gz'' then Inr (Some (''foo'', ''1.0.0'')) else Inr None)
             2 2
             \<lparr> metrics_endpoint = ''/metrics'', config = None,
               collector = Some (MetricsCollector_init 0) \<rparr>
             \<lparr> path = ''/packages/foo-1.0.0.tar.gz'', req_method = ''GET'',
               metrics_start_time = Some 1, forms = Inr [], files = Inr [], auth = Inr None \<rparr>
             \<lparr> status_code = 200, content_type = ''application/octet-stream'' \<rparr>
           = (Inr (), \<lparr> metrics_endpoint = ''/metrics'', config = None,
                         collector = Some (MetricsCollector_init 0) \<rparr>
                      \<lparr> collector := Some c' \<rparr>)
      \<and> package_downloads_total c'
          = inc (package_downloads_total (MetricsCollector_init 0)) [''foo'', ''foo-1.0.0.tar.gz'']
      \<and> counter_total (package_downloads_total c')
          = counter_total (package_downloads_total (MetricsCollector_init 0)) + 1
      \<and> counter_value (package_downloads_total c') [''foo'', ''foo-1.0.0.tar.gz'']
          = counter_value (package_downloads_total (MetricsCollector_init 0))
              [''foo'', ''foo-1.0.0.tar.gz''] + 1)
   \<and> (\<exists>c'. after_request
             (\<lambda>f. if f = ''foo-1.0.0.tar.gz'' then Inr (Some (''foo'', ''1.0.0'')) else Inr None)
             2 2
             \<lparr> metrics_endpoint = ''/metrics'', config = None,
               collector = Some (MetricsCollector_init 0) \<rparr>
             \<lparr> path = ''/packages/foo-1.0.0.tar.gz'', req_method = ''GET'',
               metrics_start_time = Some 1, forms = Inr [], files = Inr [], auth = Inr None \<rparr>
             \<lparr> status_code = 404, content_type = ''text/html'' \<rparr>
           = (Inr (), \<lparr> metrics_endpoint = ''/metrics'', config = None,
                         collector = Some (MetricsCollector_init 0) \<rparr>
                      \<lparr> collector := Some c' \<rparr>)
      \<and> package_downloads_total c' = package_downloads_total (MetricsCollector_init 0))"
  by (rule download_recorded_only_on_200 [where version = "''1.0.0''"]) simp_all

text \<open>
  C1 (as the code has it).  With an initialised collector: when the before-request hook
  stamped the request at \<open>t\<close>, the after-request hook records the duration \<open>now - t\<close>
  as it is, with no clamping, so a clock that was set back gives a negative duration;
  when no stamp was recorded and the two readings of the clock the hook takes agree, it
  records the duration 0.
\<close>

theorem duration_is_plain_difference:
  assumes "collector self = Some c"
    and "metrics_start_time stamped = Some t"
    and "metrics_start_time unstamped = None"
  shows "(\<exists>c'. snd (after_request guess now now_default self stamped response)
                  = self\<lparr> collector := Some c' \<rparr>
            \<and> observations (http_request_duration_seconds c')
                  [req_method stamped, path stamped, str_nat (status_code response)]
                = observations (http_request_duration_seconds c)
                    [req_method stamped, path stamped, str_nat (status_code response)]
                  @ [now - t])
       \<and> (\<exists>c'. snd (after_request guess now now self unstamped response)
                  = self\<lparr> collector := Some c' \<rparr>
            \<and> observations (http_request_duration_seconds c')
                  [req_method unstamped, path unstamped, str_nat (status_code response)]
                = observations (http_request_duration_seconds c)
                    [req_method unstamped, path unstamped, str_nat (status_code response)]
                  @ [0])"
proof -
  have hist: "http_request_duration_seconds (snd (record_application_metrics g r s k))
                = http_request_duration_seconds k" for g r s k
    by (simp add: record_application_metrics_def record_download_def record_upload_def
        record_search_def Let_def split: sum.splits option.splits)
  have step: "\<exists>c'. snd (after_request guess now nd self r response) = self\<lparr> collector := Some c' \<rparr>
                \<and> observations (http_request_duration_seconds c')
                      [req_method r, path r, str_nat (status_code response)]
                    = observations (http_request_duration_seconds c)
                        [req_method r, path r, str_nat (status_code response)]
                      @ [now - (case metrics_start_time r of None \<Rightarrow> nd | Some t \<Rightarrow> t)]"
    for nd r
  proof -
    define d where "d = now - (case metrics_start_time r of None \<Rightarrow> nd | Some t \<Rightarrow> t)"
    define c1 where
      "c1 = record_http_request (req_method r) (path r) (str_nat (status_code response)) d c"
    define c2 where
      "c2 = snd (record_application_metrics guess r (str_nat (status_code response)) c1)"
    have run: "snd (after_request guess now nd self r response) = self\<lparr> collector := Some c2 \<rparr>"
      using assms(1)
      by (simp add: after_request_def Let_def c2_def c1_def d_def del: str_nat.simps)
    have "http_request_duration_seconds c2 = http_request_duration_seconds c1"
      by (simp add: c2_def hist)
    then have "observations (http_request_duration_seconds c2)
                 [req_method r, path r, str_nat (status_code response)]
               = observations (http_request_duration_seconds c)
                   [req_method r, path r, str_nat (status_code response)] @ [d]"
      by (simp add: c1_def record_http_request_def observations_observe_same
          del: str_nat.simps)
    with run show ?thesis unfolding d_def by blast
  qed
  from step [of now_default stamped] step [of now unstamped] assms(2,3)
  show ?thesis by simp
qed

theorem duration_is_plain_difference_witness:
  "(\<exists>c'. snd (after_request (\<lambda>f. Inr None) 5 6
                  \<lparr> metrics_endpoint = ''/metrics'', config = None,
                    collector = Some (MetricsCollector_init 0) \<rparr>
                  \<lparr> path = ''/'', req_method = ''GET'', metrics_start_time = Some 3,
                    forms = Inr [], files = Inr [], auth = Inr None \<rparr>
                  \<lparr> status_code = 200, content_type = ''text/html'' \<rparr>)
             = \<lparr> metrics_endpoint = ''/metrics'', config = None,
                 collector = Some c' \<rparr>
        \<and> observations (http_request_duration_seconds c') [''GET'', ''/'', ''200''] = [2])
   \<and> (\<exists>c'. snd (after_request (\<lambda>f. Inr None) 5 5
                  \<lparr> metrics_endpoint = ''/metrics'', config = None,
                    collector = Some (MetricsCollector_init 0) \<rparr>
                  \<lparr> path = ''/simple/'', req_method = ''GET'', metrics_start_time = None,
                    forms = Inr [], files = Inr [], auth = Inr None \<rparr>
                  \<lparr> status_code = 200, content_type = ''text/html'' \<rparr>)
             = \<lparr> metrics_endpoint = ''/metrics'', config = None,
                 collector = Some c' \<rparr>
        \<and> observations (http_request_duration_seconds c') [''GET'', ''/simple/'', ''200''] = [0])"
  using duration_is_plain_difference
    [of "\<lparr> metrics_endpoint = ''/metrics'', config = None,
           collector = Some (MetricsCollector_init 0) \<rparr>"
        "MetricsCollector_init 0"
        "\<lparr> path = ''/'', req_method = ''GET'', metrics_start_time = Some 3,
           forms = Inr [], files = Inr [], auth = Inr None \<rparr>"
        3
        "\<lparr> path = ''/simple/'', req_method = ''GET'', metrics_start_time = None,
           forms = Inr [], files = Inr [], auth = Inr None \<rparr>"
        "\<lambda>f. Inr None" 5 6
        "\<lparr> status_code = 200, content_type = ''text/html'' \<rparr>"]
  by (simp add: str_nat_200 MetricsCollector_init_def observations_def del: str_nat.simps)

text \<open>
  The clock read 2 at the start of the request and 1 at its end: the duration recorded
  is -1, not the clamped value 0.
\<close>

theorem clamped_duration_counterexample:
  "observations
     (http_request_duration_seconds
        (the (collector (snd (after_request (\<lambda>f. Inr None) 1 1
           \<lparr> metrics_endpoint = ''/metrics'', config = None,
             collector = Some (MetricsCollector_init 0) \<rparr>
           \<lparr> path = ''/'', req_method = ''GET'', metrics_start_time = Some 2,
             forms = Inr [], files = Inr [], auth = Inr None \<rparr>
           \<lparr> status_code = 200, content_type = ''text/html'' \<rparr>)))))
     [''GET'', ''/'', ''200'']
   = [- 1]
   \<and> [- 1] \<noteq> [max 0 (1 - 2 :: real)]"
  by (simp add: after_request_def record_http_request_def record_application_metrics_def
      startswith_def str_nat_200 MetricsCollector_init_def observations_def Let_def
      del: str_nat.simps)

text \<open>
  C2 (the code at a failing input).  The filename parser raises on a download that was
  answered with status 200: the exception leaves the after-request hook.  The request was
  counted once before the classification started, and stays counted.
\<close>

theorem classification_exception_propagates:
  "after_request (\<lambda>f. Inl (OtherException ''boom'')) 2 2
     \<lparr> metrics_endpoint = ''/metrics'', config = None,
       collector = Some (MetricsCollector_init 0) \<rparr>
     \<lparr> path = ''/packages/foo-1.0.0.tar.gz'', req_method = ''GET'',
       metrics_start_time = Some 1, forms = Inr [], files = Inr [], auth = Inr None \<rparr>
     \<lparr> status_code = 200, content_type = ''application/octet-stream'' \<rparr>
   = (Inl (OtherException ''boom''),
      \<lparr> metrics_endpoint = ''/metrics'', config = None,
        collector = Some (record_http_request ''GET'' ''/packages/foo-1.0.0.tar.gz'' ''200'' 1
                           (MetricsCollector_init 0)) \<rparr>)"
  by (simp add: after_request_def record_application_metrics_def filename_of_foo
      startswith_def str_nat_200 Let_def del: str_nat.simps)

section \<open>The scrape endpoint\<close>

subsection \<open>What the try statement of the refresh does\<close>

lemma try_update_both_answer:
  assumes "collector self = Some c"
    and "responses b (calls b) = Inr pkgs1"
    and "responses b (calls b + 1) = Inr pkgs2"
  shows "try_update_repository_stats self cfg b
           = (Inr (), self\<lparr> config := Some (cfg\<lparr> backend := Some (b\<lparr> calls := calls b + 2 \<rparr>) \<rparr>),
                            collector := Some (update_package_counts (length pkgs1)
                                                 (card (set (map pkgname pkgs2))) c) \<rparr>)"
  using assms
  by (simp add: try_update_repository_stats_def get_all_packages_def with_backend_def Let_def
      length_remdups_card_conv)

lemma try_update_raises:
  assumes "responses b (calls b) = Inl e \<or> responses b (calls b + 1) = Inl e"
  shows "\<exists>e' self'. try_update_repository_stats self cfg b = (Inl e', self')
           \<and> collector self' = collector self"
  using assms
  by (auto simp add: try_update_repository_stats_def get_all_packages_def with_backend_def Let_def
      split: sum.splits)

lemma update_raises_keeps_collector:
  assumes "config self = Some cfg" and "backend cfg = Some b"
    and "responses b (calls b) = Inl e \<or> responses b (calls b + 1) = Inl e"
  shows "collector (fst (update_repository_stats self)) = collector self"
proof -
  from try_update_raises [OF assms(3)] obtain e' self'
    where r: "try_update_repository_stats self cfg b = (Inl e', self')"
      and k: "collector self' = collector self"
    by blast
  show ?thesis
    using assms(1,2) r k
    by (cases e') (simp_all add: update_repository_stats_def Let_def)
qed

subsection \<open>The refresh\<close>

text \<open>
  C3 (as the code has it).  With a configuration, a backend and a collector in place, a
  refresh whose backend calls both answer asks the backend for its packages twice.  It
  sets \<^verbatim>\<open>packages_total\<close> to the length of the first answer and \<^verbatim>\<open>projects_total\<close>
  to the number of distinct project names of the second answer, and logs nothing.  When
  the two answers are the same list, \<^verbatim>\<open>packages_total\<close> is the length of that list and
  \<^verbatim>\<open>projects_total\<close> the number of its distinct project names: both gauges describe
  that one list.
\<close>

theorem refresh_queries_backend_twice:
  assumes "config self = Some cfg"
    and "backend cfg = Some b"
    and "collector self = Some c"
    and "responses b (calls b) = Inr pkgs1"
    and "responses b (calls b + 1) = Inr pkgs2"
  shows "update_repository_stats self
           = (self\<lparr> config := Some (cfg\<lparr> backend := Some (b\<lparr> calls := calls b + 2 \<rparr>) \<rparr>),
                    collector := Some (c\<lparr> packages_total := real (length pkgs1),
                                          projects_total := real (card (set (map pkgname pkgs2))) \<rparr>) \<rparr>,
              [])
       \<and> (pkgs2 = pkgs1 \<longrightarrow>
            map_option packages_total (collector (fst (update_repository_stats self)))
              = Some (real (length pkgs1))
            \<and> map_option projects_total (collector (fst (update_repository_stats self)))
              = Some (real (card (set (map pkgname pkgs1)))))"
proof -
  have run: "update_repository_stats self
               = (self\<lparr> config := Some (cfg\<lparr> backend := Some (b\<lparr> calls := calls b + 2 \<rparr>) \<rparr>),
                        collector := Some (c\<lparr> packages_total := real (length pkgs1),
                                              projects_total := real (card (set (map pkgname pkgs2))) \<rparr>) \<rparr>,
                  [])"
    using assms(1,2) try_update_both_answer [OF assms(3,4,5), of cfg]
    by (simp add: update_repository_stats_def Let_def update_package_counts_def)
  show ?thesis
    unfolding run by simp
qed

theorem refresh_queries_backend_twice_witness:
  "update_repository_stats
     \<lparr> metrics_endpoint = ''/metrics'',
       config = Some \<lparr> backend = Some \<lparr> class_name = ''SimpleFileBackend'',
                                        responses = (\<lambda>n. Inr [\<lparr> pkgname = ''foo'', fn = ''foo-1.0.tar.gz'' \<rparr>,
                                                              \<lparr> pkgname = ''foo'', fn = ''foo-1.1.tar.gz'' \<rparr>,
                                                              \<lparr> pkgname = ''bar'', fn = ''bar-2.1.tar.gz'' \<rparr>]),
                                        calls = 0 \<rparr>,
                       fallback_url = None \<rparr>,
       collector = Some (MetricsCollector_init 0) \<rparr>
   = (\<lparr> metrics_endpoint = ''/metrics'',
        config = Some \<lparr> backend = Some \<lparr> class_name = ''SimpleFileBackend'',
                                         responses = (\<lambda>n. Inr [\<lparr> pkgname = ''foo'', fn = ''foo-1.0.tar.gz'' \<rparr>,
                                                               \<lparr> pkgname = ''foo'', fn = ''foo-1.1.tar.gz'' \<rparr>,
                                                               \<lparr> pkgname = ''bar'', fn = ''bar-2.1.tar.gz'' \<rparr>]),
                                         calls = 2 \<rparr>,
                        fallback_url = None \<rparr>,
        collector = Some ((MetricsCollector_init 0)\<lparr> packages_total := 3, projects_total := 2 \<rparr>) \<rparr>,
      [])
   \<and> map_option packages_total (collector (fst (update_repository_stats
     \<lparr> metrics_endpoint = ''/metrics'',
       config = Some \<lparr> backend = Some \<lparr> class_name = ''SimpleFileBackend'',
                                        responses = (\<lambda>n. Inr [\<lparr> pkgname = ''foo'', fn = ''foo-1.0.tar.gz'' \<rparr>,
                                                              \<lparr> pkgname = ''foo'', fn = ''foo-1.1.tar.gz'' \<rparr>,
                                                              \<lparr> pkgname = ''bar'', fn = ''bar-2.1.tar.gz'' \<rparr>]),
                                        calls = 0 \<rparr>,
                       fallback_url = None \<rparr>,
       collector = Some (MetricsCollector_init 0) \<rparr>)))
     = Some 3
   \<and> map_option projects_total (collector (fst (update_repository_stats
     \<lparr> metrics_endpoint = ''/metrics'',
       config = Some \<lparr> backend = Some \<lparr> class_name = ''SimpleFileBackend'',
                                        responses = (\<lambda>n. Inr [\<lparr> pkgname = ''foo'', fn = ''foo-1.0.tar.gz'' \<rparr>,
                                                              \<lparr> pkgname = ''foo'', fn = ''foo-1.1.tar.gz'' \<rparr>,
                                                              \<lparr> pkgname = ''bar'', fn = ''bar-2.1.tar.gz'' \<rparr>]),
                                        calls = 0 \<rparr>,
                       fallback_url = None \<rparr>,
       collector = Some (MetricsCollector_init 0) \<rparr>)))
     = Some 2"
  using refresh_queries_backend_twice
    [of "\<lparr> metrics_endpoint = ''/metrics'',
           config = Some \<lparr> backend = Some \<lparr> class_name = ''SimpleFileBackend'',
                                        responses = (\<lambda>n. Inr [\<lparr> pkgname = ''foo'', fn = ''foo-1.0.tar.gz'' \<rparr>,
                                                              \<lparr> pkgname = ''foo'', fn = ''foo-1.1.tar.gz'' \<rparr>,
                                                              \<lparr> pkgname = ''bar'', fn = ''bar-2.1.tar.gz'' \<rparr>]),
                                        calls = 0 \<rparr>,
                       fallback_url = None \<rparr>,
           collector = Some (MetricsCollector_init 0) \<rparr>"
        "\<lparr> backend = Some \<lparr> class_name = ''SimpleFileBackend'',
                             responses = (\<lambda>n. Inr [\<lparr> pkgname = ''foo'', fn = ''foo-1.0.tar.gz'' \<rparr>,
                                                   \<lparr> pkgname = ''foo'', fn = ''foo-1.1.tar.gz'' \<rparr>,
                                                   \<lparr> pkgname = ''bar'', fn = ''bar-2.1.tar.gz'' \<rparr>]),
                             calls = 0 \<rparr>,
           fallback_url = None \<rparr>"
        "\<lparr> class_name = ''SimpleFileBackend'',
           responses = (\<lambda>n. Inr [\<lparr> pkgname = ''foo'', fn = ''foo-1.0.tar.gz'' \<rparr>,
                                 \<lparr> pkgname = ''foo'', fn = ''foo-1.1.tar.gz'' \<rparr>,
                                 \<lparr> pkgname = ''bar'', fn = ''bar-2.1.tar.gz'' \<rparr>]),
           calls = 0 \<rparr>"
        "MetricsCollector_init 0"
        "[\<lparr> pkgname = ''foo'', fn = ''foo-1.0.tar.gz'' \<rparr>,
          \<lparr> pkgname = ''foo'', fn = ''foo-1.1.tar.gz'' \<rparr>,
          \<lparr> pkgname = ''bar'', fn = ''bar-2.1.tar.gz'' \<rparr>]"
        "[\<lparr> pkgname = ''foo'', fn = ''foo-1.0.tar.gz'' \<rparr>,
          \<lparr> pkgname = ''foo'', fn = ''foo-1.1.tar.gz'' \<rparr>,
          \<lparr> pkgname = ''bar'', fn = ''bar-2.1.tar.gz'' \<rparr>]"]
  by simp

text \<open>
  A package of a new project is uploaded between the two calls of one refresh: the
  backend has been called twice, not once, and the gauges show one package file and
  two projects.  Neither answer of the backend gives both numbers: the first has one
  project, the second two package files.
\<close>

theorem single_snapshot_counterexample:
  "update_repository_stats
     \<lparr> metrics_endpoint = ''/metrics'',
       config = Some \<lparr> backend = Some \<lparr> class_name = ''SimpleFileBackend'',
                                        responses = (\<lambda>n. if n = 0
                                          then Inr [\<lparr> pkgname = ''foo'', fn = ''foo-1.0.tar.gz'' \<rparr>]
                                          else Inr [\<lparr> pkgname = ''foo'', fn = ''foo-1.0.tar.gz'' \<rparr>,
                                                    \<lparr> pkgname = ''bar'', fn = ''bar-2.1.tar.gz'' \<rparr>]),
                                        calls = 0 \<rparr>,
                       fallback_url = None \<rparr>,
       collector = Some (MetricsCollector_init 0) \<rparr>
   = (\<lparr> metrics_endpoint = ''/metrics'',
        config = Some \<lparr> backend = Some \<lparr> class_name = ''SimpleFileBackend'',
                                         responses = (\<lambda>n. if n = 0
                                           then Inr [\<lparr> pkgname = ''foo'', fn = ''foo-1.0.tar.gz'' \<rparr>]
                                           else Inr [\<lparr> pkgname = ''foo'', fn = ''foo-1.0.tar.gz'' \<rparr>,
                                                     \<lparr> pkgname = ''bar'', fn = ''bar-2.1.tar.gz'' \<rparr>]),
                                         calls = 2 \<rparr>,
                        fallback_url = None \<rparr>,
        collector = Some ((MetricsCollector_init 0)\<lparr> packages_total := 1, projects_total := 2 \<rparr>) \<rparr>,
      [])
   \<and> real (card (set (map pkgname [\<lparr> pkgname = ''foo'', fn = ''foo-1.0.tar.gz'' \<rparr>]))) \<noteq> 2
   \<and> real (length [\<lparr> pkgname = ''foo'', fn = ''foo-1.0.tar.gz'' \<rparr>,
                     \<lparr> pkgname = ''bar'', fn = ''bar-2.1.tar.gz'' \<rparr>]) \<noteq> 1"
  by (simp add: update_repository_stats_def try_update_repository_stats_def
      get_all_packages_def with_backend_def update_package_counts_def Let_def)

subsection \<open>The handler\<close>

text \<open>
  C5.  Let a backend call of the refresh raise, the first or the second one.  The
  handler leaves \<^verbatim>\<open>packages_total\<close> and \<^verbatim>\<open>projects_total\<close> at the values they had,
  and where rendering gives the metrics it returns them with the status 200 the host
  framework had set and the content type of the exposition format.
\<close>

theorem backend_failure_keeps_gauges:
  assumes "config self = Some cfg"
    and "backend cfg = Some b"
    and "collector self = Some c"
    and "responses b (calls b) = Inl e \<or> responses b (calls b + 1) = Inl e"
    and "render (update_uptime now c) = Inr metrics_bytes"
    and "status_code response = 200"
  shows "\<exists>self' c' logged.
           metrics_handler render now self response
             = (Inr metrics_bytes, self', response\<lparr> content_type := CONTENT_TYPE_LATEST \<rparr>, logged)
           \<and> status_code (response\<lparr> content_type := CONTENT_TYPE_LATEST \<rparr>) = 200
           \<and> collector self' = Some c'
           \<and> packages_total c' = packages_total c
           \<and> projects_total c' = projects_total c"
proof -
  have k: "collector (fst (update_repository_stats self)) = Some c"
    using update_raises_keeps_collector [OF assms(1,2,4)] assms(3) by simp
  have g: "generate_metrics render now c
             = (Inr (metrics_bytes, CONTENT_TYPE_LATEST), update_uptime now c)"
    using assms(5) by (simp add: generate_metrics_def Let_def)
  have run: "metrics_handler render now self response
               = (Inr metrics_bytes,
                  (fst (update_repository_stats self))\<lparr> collector := Some (update_uptime now c) \<rparr>,
                  response\<lparr> content_type := CONTENT_TYPE_LATEST \<rparr>,
                  snd (update_repository_stats self))"
    using k g by (simp add: metrics_handler_def Let_def)
  show ?thesis
    using run assms(6) by (simp add: update_uptime_def)
qed

theorem backend_failure_keeps_gauges_witness:
  "\<exists>self' c' logged.
     metrics_handler (\<lambda>c. Inr ''# HELP pypiserver_packages_total'') 9
       \<lparr> metrics_endpoint = ''/metrics'',
         config = Some \<lparr> backend = Some \<lparr> class_name = ''SimpleFileBackend'',
                                          responses = (\<lambda>n. Inl (OtherException ''disk unreadable'')),
                                          calls = 0 \<rparr>,
                         fallback_url = None \<rparr>,
         collector = Some ((MetricsCollector_init 0)\<lparr> packages_total := 3, projects_total := 2 \<rparr>) \<rparr>
       \<lparr> status_code = 200, content_type = ''text/html; charset=UTF-8'' \<rparr>
     = (Inr ''# HELP pypiserver_packages_total'', self',
        \<lparr> status_code = 200, content_type = ''text/html; charset=UTF-8'' \<rparr>
          \<lparr> content_type := CONTENT_TYPE_LATEST \<rparr>, logged)
     \<and> status_code (\<lparr> status_code = 200, content_type = ''text/html; charset=UTF-8'' \<rparr>
                       \<lparr> content_type := CONTENT_TYPE_LATEST \<rparr>) = 200
     \<and> collector self' = Some c'
     \<and> packages_total c'
         = packages_total ((MetricsCollector_init 0)\<lparr> packages_total := 3, projects_total := 2 \<rparr>)
     \<and> projects_total c'
         = projects_total ((MetricsCollector_init 0)\<lparr> packages_total := 3, projects_total := 2 \<rparr>)"
  by (rule backend_failure_keeps_gauges
      [where e = "OtherException ''disk unreadable''"
         and cfg = "\<lparr> backend = Some \<lparr> class_name = ''SimpleFileBackend'',
                                       responses = (\<lambda>n. Inl (OtherException ''disk unreadable'')),
                                       calls = 0 \<rparr>,
                      fallback_url = None \<rparr>"
         and b = "\<lparr> class_name = ''SimpleFileBackend'',
                    responses = (\<lambda>n. Inl (OtherException ''disk unreadable'')),
                    calls = 0 \<rparr>"])
    simp_all

text \<open>
  C6.  When rendering raises \<open>e\<close>, the handler returns normally: the status is 500, the
  content type \<^verbatim>\<open>text/plain\<close>, and the body is the text
  \<^verbatim>\<open>Error generating metrics: \<close> followed by the message of \<open>e\<close> and a newline.
\<close>

theorem render_failure_gives_500:
  assumes "collector (fst (update_repository_stats self)) = Some c"
    and "render (update_uptime now c) = Inl e"
  shows "\<exists>self' logged.
           metrics_handler render now self response
             = (Inr (''Error generating metrics: '' @ str_exception e @ [CHR 0x0A]), self',
                response\<lparr> status_code := 500, content_type := ''text/plain'' \<rparr>, logged)"
  using assms
  by (simp add: metrics_handler_def generate_metrics_def error_body_def Let_def)

theorem render_failure_gives_500_witness:
  "\<exists>self' logged.
     metrics_handler (\<lambda>c. Inl (OtherException ''bad sample'')) 9
       \<lparr> metrics_endpoint = ''/metrics'', config = None,
         collector = Some (MetricsCollector_init 0) \<rparr>
       \<lparr> status_code = 200, content_type = ''text/html; charset=UTF-8'' \<rparr>
     = (Inr (''Error generating metrics: '' @ str_exception (OtherException ''bad sample'')
              @ [CHR 0x0A]), self',
        \<lparr> status_code = 200, content_type = ''text/html; charset=UTF-8'' \<rparr>
          \<lparr> status_code := 500, content_type := ''text/plain'' \<rparr>, logged)"
  by (rule render_failure_gives_500 [where c = "MetricsCollector_init 0"])
    (simp_all add: update_repository_stats_def)

section \<open>Installing the plugin\<close>

lemma add_metrics_endpoint_taken:
  "metrics_endpoint self \<in> set (map rule (routes a))
     \<Longrightarrow> add_metrics_endpoint self a
           = (Inl (RuntimeError (''Metrics endpoint '' @ [CHR 0x27] @ metrics_endpoint self
                     @ [CHR 0x27] @ '' overlaps with existing routes'')), a)"
  by (simp add: add_metrics_endpoint_def)

lemma add_metrics_endpoint_free:
  "metrics_endpoint self \<notin> set (map rule (routes a))
     \<Longrightarrow> add_metrics_endpoint self a
           = (Inr (), a\<lparr> routes := routes a @ [\<lparr> rule = metrics_endpoint self,
                                                    route_method = ''GET'',
                                                    callback = Metrics_handler \<rparr>] \<rparr>)"
  by (simp add: add_metrics_endpoint_def add_route_def)

text \<open>
  C7.  The plugin is installed on an application of the server, one that carries the
  server's configuration, with a non-empty path for the metrics endpoint.  When that
  path is the rule of a route the application already has, \<^verbatim>\<open>setup\<close> raises a
  \<^verbatim>\<open>RuntimeError\<close> and leaves the routes as they were: the endpoint is not
  registered.  When no route has that rule, \<^verbatim>\<open>setup\<close> returns normally and has
  added the route of the metrics handler, for \<^verbatim>\<open>GET\<close>, after the existing routes.
\<close>

theorem endpoint_registered_unless_taken:
  assumes "metrics_endpoint self \<in> set (map rule (routes taken))"
    and "metrics_endpoint self \<notin> set (map rule (routes free))"
    and "pypiserver_config taken = Some cfg_taken"
    and "pypiserver_config free = Some cfg"
    and "metrics_endpoint self \<noteq> []"
  shows "fst (setup_plugin version now self taken)
           = Inl (RuntimeError (''Metrics endpoint '' @ [CHR 0x27] @ metrics_endpoint self
                    @ [CHR 0x27] @ '' overlaps with existing routes''))
       \<and> routes (snd (snd (setup_plugin version now self taken))) = routes taken
       \<and> fst (setup_plugin version now self free) = Inr ()
       \<and> routes (snd (snd (setup_plugin version now self free)))
           = routes free @ [\<lparr> rule = metrics_endpoint self, route_method = ''GET'',
                               callback = Metrics_handler \<rparr>]"
proof -
  define self1 where
    "self1 = self\<lparr> config := Some cfg_taken,
                   collector := Some (set_server_info version (backend_type cfg_taken)
                      (fallback_or_none cfg_taken) (MetricsCollector_init now)) \<rparr>"
  define a1 where
    "a1 = add_hook ''after_request'' After_request
            (add_hook ''before_request'' Before_request taken)"
  have "metrics_endpoint self1 \<in> set (map rule (routes a1))"
    using assms(1) by (simp add: self1_def a1_def add_hook_def)
  from add_metrics_endpoint_taken [OF this]
  have taken: "fst (setup_plugin version now self taken)
                 = Inl (RuntimeError (''Metrics endpoint '' @ [CHR 0x27] @ metrics_endpoint self
                          @ [CHR 0x27] @ '' overlaps with existing routes''))
               \<and> routes (snd (snd (setup_plugin version now self taken))) = routes taken"
    using assms(3) by (simp add: setup_plugin_def Let_def self1_def a1_def add_hook_def)
  define self2 where
    "self2 = self\<lparr> config := Some cfg,
                   collector := Some (set_server_info version (backend_type cfg)
                      (fallback_or_none cfg) (MetricsCollector_init now)) \<rparr>"
  define a2 where
    "a2 = add_hook ''after_request'' After_request
            (add_hook ''before_request'' Before_request free)"
  have "metrics_endpoint self2 \<notin> set (map rule (routes a2))"
    using assms(2) by (simp add: self2_def a2_def add_hook_def)
  from add_metrics_endpoint_free [OF this]
  have "fst (setup_plugin version now self free) = Inr ()
          \<and> routes (snd (snd (setup_plugin version now self free)))
              = routes free @ [\<lparr> rule = metrics_endpoint self, route_method = ''GET'',
                                  callback = Metrics_handler \<rparr>]"
    using assms(4) by (simp add: setup_plugin_def Let_def self2_def a2_def add_hook_def)
  with taken show ?thesis by simp
qed

theorem endpoint_registered_unless_taken_witness:
  "fst (setup_plugin ''2.1.1'' 0 (MetricsPlugin_init None ''/metrics'')
              \<lparr> pypiserver_config = Some \<lparr> backend = None, fallback_url = None \<rparr>,
                routes = [\<lparr> rule = ''/metrics'', route_method = ''GET'',
                            callback = Host_callback ''stats'' \<rparr>],
                hooks = [] \<rparr>)
     = Inl (RuntimeError (''Metrics endpoint '' @ [CHR 0x27] @ ''/metrics'' @ [CHR 0x27]
              @ '' overlaps with existing routes''))
   \<and> routes (snd (snd (setup_plugin ''2.1.1'' 0 (MetricsPlugin_init None ''/metrics'')
              \<lparr> pypiserver_config = Some \<lparr> backend = None, fallback_url = None \<rparr>,
                routes = [\<lparr> rule = ''/metrics'', route_method = ''GET'',
                            callback = Host_callback ''stats'' \<rparr>],
                hooks = [] \<rparr>)))
       = [\<lparr> rule = ''/metrics'', route_method = ''GET'', callback = Host_callback ''stats'' \<rparr>]
   \<and> fst (setup_plugin ''2.1.1'' 0 (MetricsPlugin_init None ''/metrics'')
              \<lparr> pypiserver_config = Some \<lparr> backend = None, fallback_url = None \<rparr>,
                routes = [\<lparr> rule = ''/simple/'', route_method = ''GET'',
                            callback = Host_callback ''simpleindex'' \<rparr>],
                hooks = [] \<rparr>) = Inr ()
   \<and> routes (snd (snd (setup_plugin ''2.1.1'' 0 (MetricsPlugin_init None ''/metrics'')
              \<lparr> pypiserver_config = Some \<lparr> backend = None, fallback_url = None \<rparr>,
                routes = [\<lparr> rule = ''/simple/'', route_method = ''GET'',
                            callback = Host_callback ''simpleindex'' \<rparr>],
                hooks = [] \<rparr>)))
       = [\<lparr> rule = ''/simple/'', route_method = ''GET'', callback = Host_callback ''simpleindex'' \<rparr>,
          \<lparr> rule = ''/metrics'', route_method = ''GET'', callback = Metrics_handler \<rparr>]"
  using endpoint_registered_unless_taken
    [of "MetricsPlugin_init None ''/metrics''"
        "\<lparr> pypiserver_config = Some \<lparr> backend = None, fallback_url = None \<rparr>,
           routes = [\<lparr> rule = ''/metrics'', route_method = ''GET'',
                       callback = Host_callback ''stats'' \<rparr>],
           hooks = [] \<rparr>"
        "\<lparr> pypiserver_config = Some \<lparr> backend = None, fallback_url = None \<rparr>,
           routes = [\<lparr> rule = ''/simple/'', route_method = ''GET'',
                       callback = Host_callback ''simpleindex'' \<rparr>],
           hooks = [] \<rparr>"
        "\<lparr> backend = None, fallback_url = None \<rparr>"
        "\<lparr> backend = None, fallback_url = None \<rparr>"
        "''2.1.1''" 0]
  by (simp add: MetricsPlugin_init_def)

end
